theory Spec2Isabelle
  imports Complex_Main "HOL-Library.Monad_Syntax"
begin

section \<open>JavaScript values used by core-js-dates-tasks.js\<close>

text \<open>
  The module works on JavaScript numbers, strings and \<open>Date\<close> objects.

  \<^item> A number is modelled as \<open>int option\<close>: \<open>Some n\<close> is the integer \<open>n\<close>, \<open>None\<close> is
    \<open>NaN\<close>. Every number the functions below produce is an integer or \<open>NaN\<close>; the
    quotients handed to \<open>Math.round\<close> and \<open>Math.floor\<close> are exact rationals (the
    floating-point rounding of a quotient is not modelled).
  \<^item> A \<open>Date\<close> object is its time value (milliseconds since the epoch, UTC), again
    \<open>int option\<close>: \<open>None\<close> is the \<open>Invalid Date\<close>, whose time value is \<open>NaN\<close>.
  \<^item> Local time is UTC shifted by a constant offset \<open>tz\<close> (milliseconds), the first
    argument of every function that reads or builds local time. Daylight saving
    changes are not modelled.
  \<^item> The date functions (\<open>Day\<close>, \<open>YearFromTime\<close>, \<open>MakeDay\<close>, \<open>TimeClip\<close>, ...) follow
    the abstract operations of the ECMAScript specification of \<open>Date\<close>.
\<close>

type_synonym number = "int option"
type_synonym date = "int option"

definition js_add :: "number \<Rightarrow> number \<Rightarrow> number" where
  "js_add a b = do { x \<leftarrow> a; y \<leftarrow> b; Some (x + y) }"

definition js_sub :: "number \<Rightarrow> number \<Rightarrow> number" where
  "js_sub a b = do { x \<leftarrow> a; y \<leftarrow> b; Some (x - y) }"


text \<open>The remainder operator \<open>%\<close>: the sign of the dividend, \<open>NaN\<close> for a zero divisor.\<close>

definition js_rem :: "int \<Rightarrow> int \<Rightarrow> number" where
  "js_rem a b = (if b = 0 then None
                 else if 0 \<le> a then Some (a mod \<bar>b\<bar>) else Some (- ((- a) mod \<bar>b\<bar>)))"

text \<open>Relational operators on numbers: every comparison with \<open>NaN\<close> is false.\<close>

definition js_lt :: "number \<Rightarrow> number \<Rightarrow> bool" where
  "js_lt a b = (case a of None \<Rightarrow> False | Some x \<Rightarrow> (case b of None \<Rightarrow> False | Some y \<Rightarrow> x < y))"

definition js_le :: "number \<Rightarrow> number \<Rightarrow> bool" where
  "js_le a b = (case a of None \<Rightarrow> False | Some x \<Rightarrow> (case b of None \<Rightarrow> False | Some y \<Rightarrow> x \<le> y))"

definition js_gt :: "number \<Rightarrow> number \<Rightarrow> bool" where
  "js_gt a b = js_lt b a"

definition js_ge :: "number \<Rightarrow> number \<Rightarrow> bool" where
  "js_ge a b = js_le b a"

definition Math_round :: "rat \<Rightarrow> int" where
  "Math_round x = \<lfloor>x + 1 / 2\<rfloor>"

definition Math_floor :: "rat \<Rightarrow> int" where
  "Math_floor x = \<lfloor>x\<rfloor>"

subsection \<open>Strings\<close>

definition digit_char :: "nat \<Rightarrow> char" where
  "digit_char n = ''0123456789'' ! n"

fun nat_toString :: "nat \<Rightarrow> string" where
  "nat_toString n = (if n < 10 then [digit_char n]
                     else nat_toString (n div 10) @ [digit_char (n mod 10)])"

declare nat_toString.simps [simp del]

text \<open>\<open>Number.prototype.toString\<close> on an integer or \<open>NaN\<close>.\<close>

definition js_toString :: "number \<Rightarrow> string" where
  "js_toString v = (case v of None \<Rightarrow> ''NaN''
     | Some n \<Rightarrow> if n < 0 then CHR ''-'' # nat_toString (nat (- n)) else nat_toString (nat n))"

text \<open>\<open>s.padStart(2, '0')\<close>.\<close>

definition padStart2 :: "string \<Rightarrow> string" where
  "padStart2 s = replicate (2 - length s) CHR ''0'' @ s"

definition is_digit :: "char \<Rightarrow> bool" where
  "is_digit c = (c \<in> set ''0123456789'')"

definition digit_val :: "char \<Rightarrow> int" where
  "digit_val c = int (of_char c) - 48"

fun digits_value :: "int \<Rightarrow> string \<Rightarrow> int" where
  "digits_value acc [] = acc"
| "digits_value acc (c # cs) = digits_value (acc * 10 + digit_val c) cs"

text \<open>
  \<open>Number(s)\<close> on the strings this module hands to it: a run of decimal digits is its
  value, the empty string is \<open>0\<close>, anything else is \<open>NaN\<close>. (Signs, fractions,
  exponents, hexadecimal literals and surrounding white space, which \<open>Number\<close>
  also accepts, are outside the modelled fragment and map to \<open>NaN\<close>.)
\<close>

definition js_Number :: "string \<Rightarrow> number" where
  "js_Number s = (if list_all is_digit s then Some (digits_value 0 s) else None)"

text \<open>\<open>s.split(c)\<close> for a one-character separator.\<close>

fun split_on :: "char \<Rightarrow> string \<Rightarrow> string list" where
  "split_on c [] = [[]]"
| "split_on c (x # xs) =
     (if x = c then [] # split_on c xs
      else (case split_on c xs of [] \<Rightarrow> [[x]] | w # ws \<Rightarrow> (x # w) # ws))"

text \<open>Array destructuring \<open>[a, b, c] = xs\<close>: a missing element is \<open>undefined\<close>, which
  becomes \<open>NaN\<close> where a number is expected.\<close>

definition element :: "number list \<Rightarrow> nat \<Rightarrow> number" where
  "element xs i = (if i < length xs then xs ! i else None)"

section \<open>The ECMAScript date operations\<close>

definition msPerDay :: int where "msPerDay = 86400000"
definition msPerHour :: int where "msPerHour = 3600000"
definition msPerMinute :: int where "msPerMinute = 60000"
definition msPerSecond :: int where "msPerSecond = 1000"

definition Day :: "int \<Rightarrow> int" where
  "Day t = t div msPerDay"

definition TimeWithinDay :: "int \<Rightarrow> int" where
  "TimeWithinDay t = t mod msPerDay"

definition DaysInYear :: "int \<Rightarrow> int" where
  "DaysInYear y = (if y mod 4 \<noteq> 0 then 365 else if y mod 100 \<noteq> 0 then 366
                   else if y mod 400 \<noteq> 0 then 365 else 366)"

definition DayFromYear :: "int \<Rightarrow> int" where
  "DayFromYear y = 365 * (y - 1970) + (y - 1969) div 4 - (y - 1901) div 100 + (y - 1601) div 400"

text \<open>
  ECMAScript defines \<open>YearFromTime(t)\<close> as the largest year \<open>y\<close> whose first day is not
  after \<open>t\<close>. The executable version estimates the year from the mean length of a
  Gregorian year (146097 days in 400 years) and corrects the estimate by at most one;
  lemmas \<open>YearFromDay_lower\<close>, \<open>YearFromDay_upper\<close> and \<open>YearFromDay_unique\<close> below
  show that it is that largest year.
\<close>

definition YearFromDay :: "int \<Rightarrow> int" where
  "YearFromDay d = (let y = 1970 + (400 * d) div 146097 in
     if DayFromYear (y + 1) \<le> d then y + 1 else if DayFromYear y \<le> d then y else y - 1)"

definition YearFromTime :: "int \<Rightarrow> int" where
  "YearFromTime t = YearFromDay (Day t)"

definition LeapDays :: "int \<Rightarrow> int" where
  "LeapDays y = (if DaysInYear y = 366 then 1 else 0)"

definition InLeapYear :: "int \<Rightarrow> int" where
  "InLeapYear t = LeapDays (YearFromTime t)"

definition DayWithinYear :: "int \<Rightarrow> int" where
  "DayWithinYear t = Day t - DayFromYear (YearFromTime t)"

definition MonthFromDay :: "int \<Rightarrow> int \<Rightarrow> int" where
  "MonthFromDay d l =
     (if d < 31 then 0 else if d < 59 + l then 1 else if d < 90 + l then 2
      else if d < 120 + l then 3 else if d < 151 + l then 4 else if d < 181 + l then 5
      else if d < 212 + l then 6 else if d < 243 + l then 7 else if d < 273 + l then 8
      else if d < 304 + l then 9 else if d < 334 + l then 10 else 11)"

definition MonthFromTime :: "int \<Rightarrow> int" where
  "MonthFromTime t = MonthFromDay (DayWithinYear t) (InLeapYear t)"

text \<open>The number of days of the year before month \<open>m\<close> (0 = January), \<open>l\<close> being 1 in a
  leap year.\<close>

definition MonthStart :: "int \<Rightarrow> int \<Rightarrow> int" where
  "MonthStart m l =
     (if m = 0 then 0 else if m = 1 then 31 else if m = 2 then 59 + l
      else if m = 3 then 90 + l else if m = 4 then 120 + l else if m = 5 then 151 + l
      else if m = 6 then 181 + l else if m = 7 then 212 + l else if m = 8 then 243 + l
      else if m = 9 then 273 + l else if m = 10 then 304 + l else 334 + l)"

definition DateFromTime :: "int \<Rightarrow> int" where
  "DateFromTime t = DayWithinYear t - MonthStart (MonthFromTime t) (InLeapYear t) + 1"

definition WeekDay :: "int \<Rightarrow> int" where
  "WeekDay t = (Day t + 4) mod 7"

definition HourFromTime :: "int \<Rightarrow> int" where
  "HourFromTime t = (t div msPerHour) mod 24"

definition MinFromTime :: "int \<Rightarrow> int" where
  "MinFromTime t = (t div msPerMinute) mod 60"

definition SecFromTime :: "int \<Rightarrow> int" where
  "SecFromTime t = (t div msPerSecond) mod 60"

definition LocalTime :: "int \<Rightarrow> int \<Rightarrow> int" where
  "LocalTime tz t = t + tz"

definition UTC :: "int \<Rightarrow> int \<Rightarrow> int" where
  "UTC tz t = t - tz"

definition MakeTime :: "int \<Rightarrow> int \<Rightarrow> int \<Rightarrow> int \<Rightarrow> int" where
  "MakeTime h m s ms = h * msPerHour + m * msPerMinute + s * msPerSecond + ms"

definition MakeDay :: "int \<Rightarrow> int \<Rightarrow> int \<Rightarrow> int" where
  "MakeDay year month dt =
     (let ym = year + month div 12; mn = month mod 12
      in DayFromYear ym + MonthStart mn (LeapDays ym) + dt - 1)"

definition MakeDate :: "int \<Rightarrow> int \<Rightarrow> int" where
  "MakeDate day time = day * msPerDay + time"

definition maxTime :: int where
  "maxTime = 8640000000000000"

definition TimeClip :: "int \<Rightarrow> date" where
  "TimeClip t = (if \<bar>t\<bar> > maxTime then None else Some t)"

text \<open>The \<open>Date\<close> constructor maps the years 0 to 99 to 1900 to 1999.\<close>

definition MakeFullYear :: "int \<Rightarrow> int" where
  "MakeFullYear y = (if 0 \<le> y \<and> y \<le> 99 then 1900 + y else y)"

subsection \<open>The Date object\<close>

text \<open>\<open>new Date(year, month, date, hours, minutes, seconds, ms)\<close>, in local time.\<close>

definition Date_new7 ::
  "int \<Rightarrow> number \<Rightarrow> number \<Rightarrow> number \<Rightarrow> number \<Rightarrow> number \<Rightarrow> number \<Rightarrow> number \<Rightarrow> date" where
  "Date_new7 tz year month dt hours minutes seconds ms =
     do { y \<leftarrow> year; m \<leftarrow> month; d \<leftarrow> dt; h \<leftarrow> hours; mi \<leftarrow> minutes; s \<leftarrow> seconds;
          milli \<leftarrow> ms;
          TimeClip (UTC tz (MakeDate (MakeDay (MakeFullYear y) m d) (MakeTime h mi s milli))) }"

text \<open>\<open>new Date(year, month, date)\<close>: the time of day defaults to 0.\<close>

definition Date_new3 :: "int \<Rightarrow> number \<Rightarrow> number \<Rightarrow> number \<Rightarrow> date" where
  "Date_new3 tz year month dt = Date_new7 tz year month dt (Some 0) (Some 0) (Some 0) (Some 0)"

text \<open>\<open>new Date(value)\<close> for a number, and for a \<open>Date\<close> object (a copy of its time
  value).\<close>

definition Date_new_value :: "number \<Rightarrow> date" where
  "Date_new_value v = (case v of None \<Rightarrow> None | Some t \<Rightarrow> TimeClip t)"

definition getTime :: "date \<Rightarrow> number" where
  "getTime d = d"

definition getFullYear :: "int \<Rightarrow> date \<Rightarrow> number" where
  "getFullYear tz d = map_option (\<lambda>t. YearFromTime (LocalTime tz t)) d"

definition getMonth :: "int \<Rightarrow> date \<Rightarrow> number" where
  "getMonth tz d = map_option (\<lambda>t. MonthFromTime (LocalTime tz t)) d"

definition getDate :: "int \<Rightarrow> date \<Rightarrow> number" where
  "getDate tz d = map_option (\<lambda>t. DateFromTime (LocalTime tz t)) d"

definition getDay :: "int \<Rightarrow> date \<Rightarrow> number" where
  "getDay tz d = map_option (\<lambda>t. WeekDay (LocalTime tz t)) d"

definition getMinutes :: "int \<Rightarrow> date \<Rightarrow> number" where
  "getMinutes tz d = map_option (\<lambda>t. MinFromTime (LocalTime tz t)) d"

definition getSeconds :: "int \<Rightarrow> date \<Rightarrow> number" where
  "getSeconds tz d = map_option (\<lambda>t. SecFromTime (LocalTime tz t)) d"

definition getUTCDate :: "date \<Rightarrow> number" where
  "getUTCDate d = map_option DateFromTime d"

definition getUTCHours :: "date \<Rightarrow> number" where
  "getUTCHours d = map_option HourFromTime d"

text \<open>\<open>d.setDate(n)\<close>: the new time value (the object is updated by the caller of this
  function, see \<open>setDate_obj\<close> for the version on a store).\<close>

definition setDate :: "int \<Rightarrow> date \<Rightarrow> number \<Rightarrow> date" where
  "setDate tz d n =
     do { t \<leftarrow> d; dt \<leftarrow> n;
          let lt = LocalTime tz t in
          TimeClip (UTC tz (MakeDate (MakeDay (YearFromTime lt) (MonthFromTime lt) dt)
                              (TimeWithinDay lt))) }"

subsection \<open>Date.parse\<close>

text \<open>
  \<open>Date.parse\<close> must accept the ECMAScript date-time string format
  \<open>YYYY-MM-DDTHH:mm:ss.sssZ\<close> (with its shorter forms, the expanded years and the
  \<open>+HH:mm\<close> offsets); a date-only form is UTC, a date-time form with no offset is local
  time. What it does with any other string is left to the host: that fallback is the
  parameter \<open>host\<close> (\<open>None\<close>, that is \<open>NaN\<close>, for a string the host does not
  recognise either).
\<close>

fun read_digits :: "nat \<Rightarrow> string \<Rightarrow> (int \<times> string) option" where
  "read_digits 0 s = Some (0, s)"
| "read_digits (Suc n) [] = None"
| "read_digits (Suc n) (c # s) =
     (if is_digit c
      then map_option (\<lambda>(v, r). (digit_val c * 10 ^ n + v, r)) (read_digits n s)
      else None)"

definition starts_with :: "char \<Rightarrow> string \<Rightarrow> bool" where
  "starts_with c s = (s \<noteq> [] \<and> hd s = c)"

definition expect :: "char \<Rightarrow> string \<Rightarrow> string option" where
  "expect c s = (if starts_with c s then Some (tl s) else None)"

definition parse_year :: "string \<Rightarrow> (int \<times> string) option" where
  "parse_year s =
     (if starts_with CHR ''+'' s then read_digits 6 (tl s)
      else if starts_with CHR ''-'' s
      then do { (y, r) \<leftarrow> read_digits 6 (tl s); if y = 0 then None else Some (- y, r) }
      else read_digits 4 s)"

definition parse_date_fields :: "string \<Rightarrow> ((int \<times> int \<times> int) \<times> string) option" where
  "parse_date_fields s =
     do { (y, r1) \<leftarrow> parse_year s;
          if starts_with CHR ''-'' r1
          then do { (m, r2) \<leftarrow> read_digits 2 (tl r1);
                    if m < 1 \<or> 12 < m then None
                    else if starts_with CHR ''-'' r2
                    then do { (d, r3) \<leftarrow> read_digits 2 (tl r2);
                              if d < 1 \<or> 31 < d then None else Some ((y, m, d), r3) }
                    else Some ((y, m, 1), r2) }
          else Some ((y, 1, 1), r1) }"

definition parse_seconds :: "string \<Rightarrow> ((int \<times> int) \<times> string) option" where
  "parse_seconds s =
     (if starts_with CHR '':'' s
      then do { (sec, r1) \<leftarrow> read_digits 2 (tl s);
                if starts_with CHR ''.'' r1
                then do { (ms, r2) \<leftarrow> read_digits 3 (tl r1); Some ((sec, ms), r2) }
                else Some ((sec, 0), r1) }
      else Some ((0, 0), s))"

definition parse_time :: "string \<Rightarrow> ((int \<times> int \<times> int \<times> int) \<times> string) option" where
  "parse_time s =
     do { (h, r1) \<leftarrow> read_digits 2 s;
          r2 \<leftarrow> expect CHR '':'' r1;
          (mi, r3) \<leftarrow> read_digits 2 r2;
          ((sec, ms), r4) \<leftarrow> parse_seconds r3;
          if (h \<le> 23 \<and> mi \<le> 59 \<and> sec \<le> 59) \<or> (h = 24 \<and> mi = 0 \<and> sec = 0 \<and> ms = 0)
          then Some ((h, mi, sec, ms), r4) else None }"

text \<open>The offset that ends a date-time form: \<open>Some None\<close> when it is absent (local time),
  \<open>Some (Some z)\<close> for \<open>Z\<close> (\<open>z = 0\<close>) and \<open>+HH:mm\<close> or \<open>-HH:mm\<close>, \<open>None\<close> for anything else.\<close>

definition parse_offset :: "string \<Rightarrow> int option option" where
  "parse_offset s =
     (if s = [] then Some None
      else if s = ''Z'' then Some (Some 0)
      else if starts_with CHR ''+'' s \<or> starts_with CHR ''-'' s
      then do { (h, r1) \<leftarrow> read_digits 2 (tl s);
                r2 \<leftarrow> expect CHR '':'' r1;
                (m, r3) \<leftarrow> read_digits 2 r2;
                if r3 = [] \<and> h \<le> 23 \<and> m \<le> 59
                then Some (Some ((if starts_with CHR ''-'' s then - 1 else 1)
                                  * (h * msPerHour + m * msPerMinute)))
                else None }
      else None)"

text \<open>\<open>None\<close>: the string is not of the date-time string format. \<open>Some v\<close>: it is, and
  \<open>v\<close> is its time value (\<open>NaN\<close> when out of the representable range).\<close>

definition parse_iso :: "int \<Rightarrow> string \<Rightarrow> number option" where
  "parse_iso tz s =
     do { ((y, m, d), r) \<leftarrow> parse_date_fields s;
          if r = [] then Some (TimeClip (MakeDate (MakeDay y (m - 1) d) 0))
          else if starts_with CHR ''T'' r
          then do { ((h, mi, sec, ms), r') \<leftarrow> parse_time (tl r);
                    off \<leftarrow> parse_offset r';
                    let t = MakeDate (MakeDay y (m - 1) d) (MakeTime h mi sec ms) in
                    Some (case off of None \<Rightarrow> TimeClip (UTC tz t)
                                    | Some z \<Rightarrow> TimeClip (t - z)) }
          else None }"

definition Date_parse :: "(string \<Rightarrow> number) \<Rightarrow> int \<Rightarrow> string \<Rightarrow> number" where
  "Date_parse host tz s = (case parse_iso tz s of Some v \<Rightarrow> v | None \<Rightarrow> host s)"

text \<open>A host that recognises nothing beyond the standard format.\<close>

definition no_legacy_formats :: "string \<Rightarrow> number" where
  "no_legacy_formats s = None"

text \<open>\<open>new Date(s)\<close> for a string.\<close>

definition Date_new_string :: "(string \<Rightarrow> number) \<Rightarrow> int \<Rightarrow> string \<Rightarrow> date" where
  "Date_new_string host tz s = Date_parse host tz s"


section \<open>The functions of core-js-dates-tasks.js\<close>

text \<open>
  The two error kinds the specification names. No function of the module contains a
  \<open>throw\<close>; the functions whose specification speaks of a failure return a sum, and
  the translation of their bodies shows that the result is always on the right.
\<close>

datatype error = ParseError | InvalidArgument






text \<open>In \<open>formatDate\<close> the test \<open>minutes > 0\<close> compares the padded string \<open>minutes\<close> with a
  number, so the string is converted with \<open>Number\<close>.\<close>

definition formatDate :: "(string \<Rightarrow> number) \<Rightarrow> int \<Rightarrow> string \<Rightarrow> string" where
  "formatDate host tz date =
     (let dateObject = Date_new_string host tz date;
          day = js_toString (getUTCDate dateObject);
          month = js_toString (js_add (getMonth tz dateObject) (Some 1));
          year = js_toString (getFullYear tz dateObject);
          hours0 = getUTCHours dateObject;
          minutes = padStart2 (js_toString (getMinutes tz dateObject));
          seconds = padStart2 (js_toString (getSeconds tz dateObject));
          hours = (if js_gt hours0 (Some 12) then js_sub hours0 (Some 12) else hours0);
          timeIndex1 = (if js_gt hours0 (Some 12) then ''PM'' else ''AM'');
          timeIndex = (if hours = Some 12 \<and> js_gt (js_Number minutes) (Some 0)
                       then ''PM'' else timeIndex1)
      in month @ ''/'' @ day @ ''/'' @ year @ '', '' @ js_toString hours @ '':'' @ minutes
           @ '':'' @ seconds @ '' '' @ timeIndex)"

definition getQuarter :: "int \<Rightarrow> date \<Rightarrow> int" where
  "getQuarter tz date =
     (let q1start = Date_new3 tz (getFullYear tz date) (Some 0) (Some 1);
          q1end = Date_new3 tz (getFullYear tz date) (Some 2) (Some 31);
          q2start = Date_new3 tz (getFullYear tz date) (Some 3) (Some 1);
          q2end = Date_new3 tz (getFullYear tz date) (Some 5) (Some 30);
          q3start = Date_new3 tz (getFullYear tz date) (Some 6) (Some 1);
          q3end = Date_new3 tz (getFullYear tz date) (Some 8) (Some 30)
      in if js_ge date q1start \<and> js_le date q1end then 1
         else if js_ge date q2start \<and> js_le date q2end then 2
         else if js_ge date q3start \<and> js_le date q3end then 3
         else 4)"







text \<open>The \<open>while\<close> loop of \<open>getWeekNumberByDate\<close> on the local object
  \<open>firstDayOfYear\<close>.\<close>

function getWeekNumberByDate_loop :: "int \<Rightarrow> date \<Rightarrow> date" where
  "getWeekNumberByDate_loop tz firstDayOfYear =
     (if js_gt (getDay tz firstDayOfYear) (Some 4) \<and> js_lt (getDay tz firstDayOfYear) (Some 1)
      then getWeekNumberByDate_loop tz
             (setDate tz firstDayOfYear (js_add (getDate tz firstDayOfYear) (Some 1)))
      else firstDayOfYear)"
  by pat_completeness auto
termination
  by (relation "{}") (auto simp: js_gt_def js_lt_def split: option.splits)

declare getWeekNumberByDate_loop.simps [simp del]

definition getWeekNumberByDate :: "int \<Rightarrow> date \<Rightarrow> number" where
  "getWeekNumberByDate tz date =
     (let firstDayOfYear =
            getWeekNumberByDate_loop tz (Date_new3 tz (getFullYear tz date) (Some 0) (Some 1));
          diffInTime = js_sub (getTime date) (getTime firstDayOfYear);
          diffInDays = map_option (\<lambda>d. Math_round (of_int d / (1000 * 60 * 60 * 24))) diffInTime
      in js_add (map_option (\<lambda>n. Math_floor (of_int n / 7)) diffInDays) (Some 1))"

section \<open>Facts about the date operations\<close>

subsection \<open>The year of a day\<close>

















subsection \<open>Setting the day of the month\<close>

lemma MonthFromDay_range: "0 \<le> MonthFromDay d l \<and> MonthFromDay d l \<le> 11"
  by (simp add: MonthFromDay_def)

lemma MakeDay_fields: "MakeDay (YearFromTime t) (MonthFromTime t) (DateFromTime t + k) = Day t + k"
proof -
  have r: "0 \<le> MonthFromTime t" "MonthFromTime t < 12"
    using MonthFromDay_range [of "DayWithinYear t" "InLeapYear t"]
    by (simp_all add: MonthFromTime_def)
  then have "MonthFromTime t div 12 = 0" "MonthFromTime t mod 12 = MonthFromTime t"
    by simp_all
  then show ?thesis
    by (simp add: MakeDay_def Let_def DateFromTime_def DayWithinYear_def InLeapYear_def)
qed

lemma MakeDate_Day: "MakeDate (Day t + k) (TimeWithinDay t) = t + k * msPerDay"
proof -
  have "t div msPerDay * msPerDay + t mod msPerDay = t" by simp
  then show ?thesis
    by (simp add: MakeDate_def Day_def TimeWithinDay_def algebra_simps)
qed

lemma setDate_getDate:
  "setDate tz (Some t) (js_add (getDate tz (Some t)) (Some k)) = TimeClip (t + k * msPerDay)"
  by (simp add: setDate_def js_add_def getDate_def Let_def MakeDay_fields MakeDate_Day
      UTC_def LocalTime_def)

lemma TimeClip_Some: "TimeClip t = Some u \<Longrightarrow> u = t"
  by (simp add: TimeClip_def split: if_splits)

section \<open>getWorkSchedule\<close>

record DatePeriod =
  period_start :: string
  period_end :: string

text \<open>\<open>xs.join(sep)\<close>.\<close>

fun join :: "string \<Rightarrow> string list \<Rightarrow> string" where
  "join sep [] = []"
| "join sep [x] = x"
| "join sep (x # y # ys) = x @ sep @ join sep (y # ys)"

definition formattedDate :: "int \<Rightarrow> date \<Rightarrow> string" where
  "formattedDate tz currentDate =
     join ''-'' [padStart2 (js_toString (getDate tz currentDate)),
                 padStart2 (js_toString (js_add (getMonth tz currentDate) (Some 1))),
                 js_toString (getFullYear tz currentDate)]"

definition getWorkSchedule_loop_measure :: "date \<Rightarrow> date \<Rightarrow> nat" where
  "getWorkSchedule_loop_measure endDate currentDate =
     (case currentDate of None \<Rightarrow> 0
      | Some c \<Rightarrow> (case endDate of None \<Rightarrow> 0 | Some e \<Rightarrow> nat (e - c + 1)))"

lemma getWorkSchedule_loop_decreases:
  assumes "js_le currentDate endDate"
  shows "getWorkSchedule_loop_measure endDate
           (setDate tz currentDate (js_add (getDate tz currentDate) (Some 1)))
         < getWorkSchedule_loop_measure endDate currentDate"
proof -
  from assms obtain c e where ce: "currentDate = Some c" "endDate = Some e" "c \<le> e"
    by (auto simp: js_le_def split: option.splits)
  have "setDate tz (Some c) (js_add (getDate tz (Some c)) (Some 1)) = TimeClip (c + 1 * msPerDay)"
    by (rule setDate_getDate)
  then show ?thesis using ce
    by (auto simp: getWorkSchedule_loop_measure_def TimeClip_def msPerDay_def split: option.splits)
qed

text \<open>The \<open>while\<close> loop of \<open>getWorkSchedule\<close>, from the values of \<open>currentDate\<close>,
  \<open>dayCounter\<close> and \<open>workSchedule\<close>.\<close>

function getWorkSchedule_loop ::
  "int \<Rightarrow> date \<Rightarrow> int \<Rightarrow> int \<Rightarrow> date \<Rightarrow> int \<Rightarrow> string list \<Rightarrow> string list" where
  "getWorkSchedule_loop tz endDate countWorkDays countOffDays currentDate dayCounter workSchedule =
     (if js_le currentDate endDate
      then getWorkSchedule_loop tz endDate countWorkDays countOffDays
             (setDate tz currentDate (js_add (getDate tz currentDate) (Some 1)))
             (dayCounter + 1)
             (if js_lt (js_rem dayCounter (countWorkDays + countOffDays)) (Some countWorkDays)
              then workSchedule @ [formattedDate tz currentDate]
              else workSchedule)
      else workSchedule)"
  by pat_completeness auto
termination
  by (relation "measure (\<lambda>(tz, endDate, countWorkDays, countOffDays, currentDate, dayCounter,
        workSchedule). getWorkSchedule_loop_measure endDate currentDate)")
     (simp_all add: getWorkSchedule_loop_decreases)

declare getWorkSchedule_loop.simps [simp del]

definition getWorkSchedule :: "int \<Rightarrow> DatePeriod \<Rightarrow> int \<Rightarrow> int \<Rightarrow> error + string list" where
  "getWorkSchedule tz period countWorkDays countOffDays =
     (let startParts = map js_Number (split_on CHR ''-'' (period_start period));
          startDay = element startParts 0;
          startMonth = element startParts 1;
          startYear = element startParts 2;
          endParts = map js_Number (split_on CHR ''-'' (period_end period));
          endDay = element endParts 0;
          endMonth = element endParts 1;
          endYear = element endParts 2;
          startDate = Date_new3 tz startYear (js_sub startMonth (Some 1)) startDay;
          endDate = Date_new3 tz endYear (js_sub endMonth (Some 1)) endDay;
          currentDate = Date_new_value startDate
      in Inr (getWorkSchedule_loop tz endDate countWorkDays countOffDays currentDate 0 []))"

section \<open>getNextFridayThe13th, on a store of Date objects\<close>








section \<open>Rounding\<close>


lemma Math_floor_div: "Math_floor (of_int a / 7) = a div 7"
proof -
  have "(of_int a :: rat) / 7 = of_int a / of_int 7" by simp
  then show ?thesis unfolding Math_floor_def by (simp only: floor_divide_of_int_eq)
qed

lemma ms_to_days: "(of_int d :: rat) / 1000 / 60 / 60 / 24 = of_int d / of_int msPerDay"
  by (simp add: msPerDay_def)

section \<open>getWeekNumberByDate\<close>





text \<open>
  The week number the documentation of \<open>getWeekNumberByDate\<close> and the specification
  ask for, from their words: ISO 8601, weeks start on Monday, and week 1 is the week
  that holds the first Thursday of the year. The week of a date is numbered by the
  Thursday of that week, counted within the Thursday's year.
\<close>

definition isoWeekNumber :: "int \<Rightarrow> date \<Rightarrow> number" where
  "isoWeekNumber tz date =
     map_option (\<lambda>t. let day = Day (LocalTime tz t);
                         monday = day - (WeekDay (LocalTime tz t) + 6) mod 7;
                         thursday = monday + 3
                     in (thursday - DayFromYear (YearFromDay thursday)) div 7 + 1) date"

text \<open>
  Claim C3 (a defect of the code). Sunday, January 8 2023 lies in ISO week 1 of 2023
  (the week of Monday, January 2); \<open>getWeekNumberByDate\<close> returns 2, because it counts
  whole weeks from January 1 whatever its weekday. The two dates of the claim
  (January 3 and 31 2024) come out as 1 and 5: in 2024 January 1 is a Monday.
\<close>

theorem getWeekNumberByDate_not_ISO:
  "getDay 0 (Date_new3 0 (Some 2023) (Some 0) (Some 8)) = Some 0
   \<and> getWeekNumberByDate 0 (Date_new3 0 (Some 2023) (Some 0) (Some 8)) = Some 2
   \<and> isoWeekNumber 0 (Date_new3 0 (Some 2023) (Some 0) (Some 8)) = Some 1
   \<and> getWeekNumberByDate 0 (Date_new3 0 (Some 2024) (Some 0) (Some 3)) = Some 1
   \<and> getWeekNumberByDate 0 (Date_new3 0 (Some 2024) (Some 0) (Some 31)) = Some 5"
  by code_simp

section \<open>getQuarter\<close>

text \<open>
  Claim C1 (a defect of the code). March 31 2024, 12:00 local time, is in the first
  quarter (month index 2), but \<open>getQuarter\<close> returns 4: the end of each quarter is the
  start of its last day, so any later time of that day is in none of the three ranges
  the function tests.
\<close>

theorem getQuarter_March_31_noon:
  "Date_new7 0 (Some 2024) (Some 2) (Some 31) (Some 12) (Some 0) (Some 0) (Some 0)
     = Some 1711886400000
   \<and> getMonth 0 (Some 1711886400000) = Some 2
   \<and> getDate 0 (Some 1711886400000) = Some 31
   \<and> getQuarter 0 (Some 1711886400000) = 4"
  by code_simp

section \<open>formatDate\<close>

text \<open>
  Claim C6 (a defect of the code). Noon is printed with \<open>AM\<close> (the test for 12 o'clock
  asks for minutes greater than 0), and an hour after midnight is printed as hour 0,
  which is not an hour of the 12-hour clock.
\<close>

theorem formatDate_noon_and_midnight:
  "formatDate no_legacy_formats 0 ''2024-02-01T12:00:00.000Z'' = ''2/1/2024, 12:00:00 AM''
   \<and> formatDate no_legacy_formats 0 ''2024-02-01T00:30:00.000Z'' = ''2/1/2024, 0:30:00 AM''"
  by code_simp

section \<open>dateToTimestamp\<close>




section \<open>getWorkSchedule with counts that are not positive\<close>

lemma js_rem_not_less:
  assumes "countWorkDays \<le> 0" and "0 \<le> dayCounter"
  shows "\<not> js_lt (js_rem dayCounter b) (Some countWorkDays)"
proof (cases "b = 0")
  case True
  then show ?thesis by (simp add: js_rem_def js_lt_def)
next
  case False
  then have "0 \<le> dayCounter mod \<bar>b\<bar>" by simp
  then have "\<not> dayCounter mod \<bar>b\<bar> < countWorkDays" using assms(1) by linarith
  then show ?thesis using False assms(2) by (simp add: js_rem_def js_lt_def)
qed

lemma getWorkSchedule_loop_no_work:
  "countWorkDays \<le> 0 \<Longrightarrow> 0 \<le> dayCounter \<Longrightarrow>
   getWorkSchedule_loop tz endDate countWorkDays countOffDays currentDate dayCounter workSchedule
     = workSchedule"
proof (induction tz endDate countWorkDays countOffDays currentDate dayCounter workSchedule
    rule: getWorkSchedule_loop.induct)
  case (1 tz endDate countWorkDays countOffDays currentDate dayCounter workSchedule)
  have nl: "\<not> js_lt (js_rem dayCounter (countWorkDays + countOffDays)) (Some countWorkDays)"
    using "1.prems" by (rule js_rem_not_less)
  show ?case
  proof (cases "js_le currentDate endDate")
    case True
    have "0 \<le> dayCounter + 1" using "1.prems" by simp
    with "1.IH" [OF True] "1.prems" nl
    have "getWorkSchedule_loop tz endDate countWorkDays countOffDays
            (setDate tz currentDate (js_add (getDate tz currentDate) (Some 1)))
            (dayCounter + 1) workSchedule = workSchedule"
      by simp
    with True nl show ?thesis
      by (subst getWorkSchedule_loop.simps) simp
  next
    case False
    then show ?thesis by (subst getWorkSchedule_loop.simps) simp
  qed
qed

text \<open>
  Claim C2, as amended. \<open>getWorkSchedule\<close> never fails with \<open>InvalidArgument\<close>: for every
  period and every pair of counts it returns a list, and the list is empty when
  \<open>countWorkDays\<close> is zero or negative.
\<close>

theorem getWorkSchedule_never_fails:
  "(\<exists>workSchedule. getWorkSchedule tz period countWorkDays countOffDays = Inr workSchedule)
   \<and> (countWorkDays \<le> 0 \<longrightarrow> getWorkSchedule tz period countWorkDays countOffDays = Inr [])"
  by (simp add: getWorkSchedule_def Let_def getWorkSchedule_loop_no_work)

text \<open>The theorem at February 2024 with \<open>countWorkDays = -2\<close>.\<close>

theorem getWorkSchedule_never_fails_witness:
  "getWorkSchedule 0 \<lparr>period_start = ''01-02-2024'', period_end = ''29-02-2024''\<rparr> (- 2) 5
     = Inr []"
  using getWorkSchedule_never_fails
    [of 0 "\<lparr>period_start = ''01-02-2024'', period_end = ''29-02-2024''\<rparr>" "- 2" 5]
  by simp

text \<open>Claim C2 as stated fails: with both counts 0 the function returns the empty
  list, it does not fail.\<close>

theorem getWorkSchedule_zero_counts:
  "getWorkSchedule 0 \<lparr>period_start = ''01-01-2024'', period_end = ''03-01-2024''\<rparr> 0 0 = Inr []
   \<and> getWorkSchedule 0 \<lparr>period_start = ''01-01-2024'', period_end = ''03-01-2024''\<rparr> 0 0
       \<noteq> Inl InvalidArgument"
  by code_simp

section \<open>getCountDaysOnPeriod\<close>






section \<open>getNextFriday\<close>







section \<open>The days of a month\<close>

























section \<open>getNextFridayThe13th: what it changes, and when it returns\<close>

subsection \<open>The store outside the working copy\<close>




subsection \<open>An Invalid Date is never left\<close>


subsection \<open>Every year has a Friday the 13th\<close>







subsection \<open>The loops end on a valid date\<close>











end
